theory Spec2Isabelle
  imports Complex_Main "HOL-Library.Log_Nat"
begin

section \<open>JavaScript values used by the payment routes\<close>

text \<open>
  The payment routes (\<^verbatim>\<open>routes/payment.js\<close>) compute with JavaScript numbers, which are
  IEEE-754 binary64 values. A finite value is kept as the rational it denotes; every
  arithmetic operation computes the exact rational result and rounds it to the nearest
  representable value, ties to even. Signed zeros are not distinguished (no route
  observes the sign of a zero).
\<close>

datatype double = Finite rat | PosInf | NegInf | NaN

text \<open>\<open>ilog2 x\<close> is the integer \<open>e\<close> with \<open>2^e \<le> |x| < 2^(e+1)\<close>, for \<open>x \<noteq> 0\<close>.\<close>

definition ilog2 :: "rat \<Rightarrow> int" where
  "ilog2 x = (let (a, b) = quotient_of \<bar>x\<bar>;
                  e = int (floorlog 2 (nat a)) - int (floorlog 2 (nat b))
              in if 2 powi e \<le> \<bar>x\<bar> then e else e - 1)"

definition round_half_even :: "rat \<Rightarrow> int" where
  "round_half_even x = (let n = \<lfloor>x\<rfloor>; f = x - of_int n
     in if f < 1/2 then n else if 1/2 < f then n + 1 else if even n then n else n + 1)"

text \<open>
  Rounding to binary64: 53 significant bits, least exponent -1022 (below it the spacing
  stays \<open>2^-1074\<close>, the subnormal range), overflow to an infinity from \<open>2^1024\<close> on.
\<close>

definition round_double :: "rat \<Rightarrow> double" where
  "round_double x = (if x = 0 then Finite 0 else
     let e = max (ilog2 x) (- 1022); q = 2 powi (e - 52);
         r = of_int (round_half_even (x / q)) * q
     in if 2 ^ 1024 \<le> \<bar>r\<bar> then (if 0 < x then PosInf else NegInf) else Finite r)"

fun fadd :: "double \<Rightarrow> double \<Rightarrow> double" where
  "fadd NaN _ = NaN"
| "fadd _ NaN = NaN"
| "fadd PosInf NegInf = NaN"
| "fadd NegInf PosInf = NaN"
| "fadd PosInf _ = PosInf"
| "fadd _ PosInf = PosInf"
| "fadd NegInf _ = NegInf"
| "fadd _ NegInf = NegInf"
| "fadd (Finite a) (Finite b) = round_double (a + b)"

fun fneg :: "double \<Rightarrow> double" where
  "fneg (Finite a) = Finite (- a)"
| "fneg PosInf = NegInf"
| "fneg NegInf = PosInf"
| "fneg NaN = NaN"

fun fmul :: "double \<Rightarrow> double \<Rightarrow> double" where
  "fmul NaN _ = NaN"
| "fmul _ NaN = NaN"
| "fmul (Finite a) (Finite b) = round_double (a * b)"
| "fmul (Finite a) y = (if a = 0 then NaN else if 0 < a then y else fneg y)"
| "fmul x (Finite b) = (if b = 0 then NaN else if 0 < b then x else fneg x)"
| "fmul PosInf y = y"
| "fmul NegInf y = fneg y"

text \<open>The comparison \<^verbatim>\<open>a > b\<close>: false whenever an operand is NaN.\<close>

fun fgt :: "double \<Rightarrow> double \<Rightarrow> bool" where
  "fgt NaN _ = False"
| "fgt _ NaN = False"
| "fgt (Finite a) (Finite b) = (b < a)"
| "fgt PosInf y = (y \<noteq> PosInf)"
| "fgt x NegInf = (x \<noteq> NegInf)"
| "fgt _ _ = False"

text \<open>\<^verbatim>\<open>Math.round\<close>: the nearest integer, a tie going up.\<close>

fun math_round :: "double \<Rightarrow> double" where
  "math_round (Finite a) = Finite (of_int \<lfloor>a + 1/2\<rfloor>)"
| "math_round x = x"

text \<open>The numeric literals of the routes.\<close>

definition lit_0 :: double where "lit_0 = Finite 0"
definition lit_10 :: double where "lit_10 = Finite 10"
definition lit_50 :: double where "lit_50 = Finite 50"
definition lit_100 :: double where "lit_100 = Finite 100"
definition lit_0_1 :: double where "lit_0_1 = round_double (1/10)"

text \<open>
  Request fields are read from a JSON body and may be absent (\<^verbatim>\<open>undefined\<close>):
  \<open>None\<close>. \<open>truthy\<close> is the test \<^verbatim>\<open>if (x)\<close> on such a field, and \<open>js_string\<close> the
  conversion that string concatenation applies to it.
\<close>

fun truthy :: "string option \<Rightarrow> bool" where
  "truthy None = False"
| "truthy (Some s) = (s \<noteq> [])"

fun js_string :: "string option \<Rightarrow> string" where
  "js_string None = ''undefined''"
| "js_string (Some s) = s"

section \<open>The Order document and the store\<close>

record item =
  price :: double
  quantity :: double

record shipping_address =
  fullName :: string
  address :: string
  city :: string
  state :: string
  zipCode :: string
  country :: string

record order =
  user :: string
  items :: "item list"
  totalAmount :: double
  shippingAddress :: "shipping_address option"
  paymentMethod :: string
  paymentStatus :: string
  status :: string
  upiVPA :: "string option"
  orderNumber :: string
  razorpayOrderId :: "string option"
  razorpayPaymentId :: "string option"
  razorpaySignature :: "string option"

text \<open>
  The collection of Order documents, keyed by \<^verbatim>\<open>_id\<close>. \<^verbatim>\<open>Order.findById\<close> is the
  lookup (of an absent id it gives \<^verbatim>\<open>null\<close>), \<^verbatim>\<open>order.save()\<close> of a loaded document
  is the update at its key. Identifiers are taken to be well-formed document ids.
\<close>

type_synonym db = "string \<rightharpoonup> order"

record user_doc =
  user_id :: string
  user_email :: string

text \<open>The process environment the routes read.\<close>

record env =
  RAZORPAY_KEY_ID :: "string option"
  RAZORPAY_KEY_SECRET :: "string option"
  RAZORPAY_WEBHOOK_SECRET :: "string option"

text \<open>
  Responses. \<open>Failure n m\<close> is \<^verbatim>\<open>res.status(n).json({success: false, message: m})\<close>;
  status 500 is sent by the \<^verbatim>\<open>catch\<close> block of a route, 401 by \<^verbatim>\<open>isAuthenticated\<close>.
  \<open>WebhookRejected\<close> is the webhook's 400, \<open>WebhookFailed\<close> its 500, \<open>WebhookOk\<close>
  its \<^verbatim>\<open>{status: 'ok'}\<close>.
\<close>

datatype response =
    Failure nat string
  | Verified string order
  | PaymentStatus string string string double
  | OrderCreated string string double string "string option"
  | UpiCreated string string string string double "string option"
  | WebhookOk
  | WebhookRejected
  | WebhookFailed

definition unauthenticated :: response where
  "unauthenticated = Failure 401 ''You must be logged in to access this resource''"

section \<open>POST /verify-payment\<close>

record verify_request =
  razorpay_order_id :: "string option"
  razorpay_payment_id :: "string option"
  razorpay_signature :: "string option"
  orderId :: "string option"

text \<open>
  \<open>createHmac key msg\<close> stands for
  \<^verbatim>\<open>crypto.createHmac('sha256', key).update(msg).digest('hex')\<close>, which throws when the
  key is \<^verbatim>\<open>undefined\<close>: the route then answers 500 from its \<^verbatim>\<open>catch\<close> block.
  The route has no check of the Order's owner against the caller.
\<close>

definition verify_payment ::
  "(string \<Rightarrow> string \<Rightarrow> string) \<Rightarrow> env \<Rightarrow> user_doc option \<Rightarrow> verify_request \<Rightarrow> db
     \<Rightarrow> response \<times> db" where
  "verify_payment createHmac e actor req d =
    (case actor of
       None \<Rightarrow> (unauthenticated, d)
     | Some u \<Rightarrow>
        if \<not> truthy (razorpay_order_id req) \<or> \<not> truthy (razorpay_payment_id req)
           \<or> \<not> truthy (razorpay_signature req)
        then (Failure 400 ''Missing payment verification parameters'', d)
        else
          (case orderId req of
             None \<Rightarrow> (Failure 404 ''Order not found'', d)
           | Some k \<Rightarrow>
          (case d k of
             None \<Rightarrow> (Failure 404 ''Order not found'', d)
           | Some ord \<Rightarrow>
              (case RAZORPAY_KEY_SECRET e of
                 None \<Rightarrow> (Failure 500 ''Failed to verify payment'', d)
               | Some secret \<Rightarrow>
                  let body = js_string (razorpay_order_id req) @ ''|''
                               @ js_string (razorpay_payment_id req);
                      expectedSignature = createHmac secret body;
                      isAuthentic = (Some expectedSignature = razorpay_signature req)
                  in if isAuthentic
                     then
                       let ord' = ord\<lparr>paymentStatus := ''completed'',
                                       status := ''processing'',
                                       razorpayPaymentId := razorpay_payment_id req,
                                       razorpaySignature := razorpay_signature req\<rparr>
                       in (Verified ''Payment verified successfully'' ord', d(k \<mapsto> ord'))
                     else
                       let ord' = ord\<lparr>paymentStatus := ''failed''\<rparr>
                       in (Failure 400 ''Payment verification failed'', d(k \<mapsto> ord'))))))"

section \<open>POST /verify-upi/:orderId\<close>

record upi_verify_request =
  upi_razorpay_payment_id :: "string option"
  upi_razorpay_order_id :: "string option"
  upi_razorpay_signature :: "string option"

text \<open>
  The route does not test the three body fields for presence; an absent one enters the
  signed text as \<^verbatim>\<open>undefined\<close>. Its mismatch branch only answers: it saves nothing.
\<close>

definition verify_upi ::
  "(string \<Rightarrow> string \<Rightarrow> string) \<Rightarrow> env \<Rightarrow> user_doc option \<Rightarrow> string \<Rightarrow> upi_verify_request
     \<Rightarrow> db \<Rightarrow> response \<times> db" where
  "verify_upi createHmac e actor k req d =
    (case actor of
       None \<Rightarrow> (unauthenticated, d)
     | Some u \<Rightarrow>
        (case d k of
           None \<Rightarrow> (Failure 404 ''Order not found'', d)
         | Some ord \<Rightarrow>
            if paymentMethod ord \<noteq> ''upi''
            then (Failure 400 ''Invalid payment method for this order'', d)
            else
              (case RAZORPAY_KEY_SECRET e of
                 None \<Rightarrow> (Failure 500 ''Failed to verify UPI payment'', d)
               | Some secret \<Rightarrow>
                  let body = js_string (upi_razorpay_order_id req) @ ''|''
                               @ js_string (upi_razorpay_payment_id req);
                      expectedSignature = createHmac secret body
                  in if Some expectedSignature = upi_razorpay_signature req
                     then
                       let ord' = ord\<lparr>paymentStatus := ''completed'',
                                       status := ''processing'',
                                       razorpayPaymentId := upi_razorpay_payment_id req,
                                       razorpaySignature := upi_razorpay_signature req\<rparr>
                       in (Verified ''UPI payment verified successfully'' ord', d(k \<mapsto> ord'))
                     else (Failure 400 ''Payment verification failed'', d))))"

section \<open>GET /status/:orderId\<close>

definition get_status :: "user_doc option \<Rightarrow> string \<Rightarrow> db \<Rightarrow> response \<times> db" where
  "get_status actor k d =
    (case actor of
       None \<Rightarrow> (unauthenticated, d)
     | Some u \<Rightarrow>
        (case d k of
           None \<Rightarrow> (Failure 404 ''Order not found'', d)
         | Some ord \<Rightarrow>
            if user ord \<noteq> user_id u then (Failure 403 ''Access denied'', d)
            else (PaymentStatus (paymentStatus ord) (paymentMethod ord) (status ord)
                    (totalAmount ord), d)))"

section \<open>POST /webhook\<close>

text \<open>
  \<^verbatim>\<open>server.js\<close> installs \<^verbatim>\<open>express.json()\<close> for every route, so the handler's
  \<^verbatim>\<open>req.body\<close> is the parsed JSON object. The handler reads \<^verbatim>\<open>body.event\<close> and
  \<^verbatim>\<open>body.payload.payment.entity\<close>, and of the entity \<^verbatim>\<open>id\<close> and
  \<^verbatim>\<open>notes?.orderId\<close>. \<open>NoPayment\<close>: \<^verbatim>\<open>payload\<close> or \<^verbatim>\<open>payload.payment\<close> is absent,
  so reading the entity throws; \<open>NoEntity\<close>: the entity itself is absent, so reading its
  notes throws.
\<close>

record payment_entity =
  entity_id :: "string option"
  notes_orderId :: "string option"

datatype entity_access = NoPayment | NoEntity | Entity payment_entity

record webhook_body =
  event :: "string option"
  payment :: entity_access

record webhook_request =
  x_razorpay_signature :: "string option"
  body :: webhook_body

text \<open>
  The signature step. \<open>stringify\<close> stands for \<^verbatim>\<open>JSON.stringify\<close> on the parsed body.
  The step is skipped when \<^verbatim>\<open>RAZORPAY_WEBHOOK_SECRET\<close> is unset or empty.
\<close>

definition webhook_rejected ::
  "(string \<Rightarrow> string \<Rightarrow> string) \<Rightarrow> (webhook_body \<Rightarrow> string) \<Rightarrow> env \<Rightarrow> webhook_request \<Rightarrow> bool"
  where
  "webhook_rejected createHmac stringify e req =
    (let webhookSecret = RAZORPAY_WEBHOOK_SECRET e;
         webhookSignature = x_razorpay_signature req
     in if truthy webhookSecret
        then
          let expectedSignature = createHmac (js_string webhookSecret) (stringify (body req))
          in webhookSignature \<noteq> Some expectedSignature
        else False)"

definition payment_captured :: "payment_entity \<Rightarrow> db \<Rightarrow> db" where
  "payment_captured payload d =
    (case notes_orderId payload of
       None \<Rightarrow> d
     | Some k \<Rightarrow>
        if k = [] then d
        else
          (case d k of
             None \<Rightarrow> d
           | Some ord \<Rightarrow>
              if paymentStatus ord \<noteq> ''completed''
              then d(k \<mapsto> ord\<lparr>paymentStatus := ''completed'', status := ''processing'',
                                razorpayPaymentId := entity_id payload\<rparr>)
              else d))"

definition payment_failed :: "payment_entity \<Rightarrow> db \<Rightarrow> db" where
  "payment_failed payload d =
    (case notes_orderId payload of
       None \<Rightarrow> d
     | Some k \<Rightarrow>
        if k = [] then d
        else
          (case d k of
             None \<Rightarrow> d
           | Some ord \<Rightarrow> d(k \<mapsto> ord\<lparr>paymentStatus := ''failed''\<rparr>)))"

definition webhook_dispatch :: "webhook_body \<Rightarrow> db \<Rightarrow> response \<times> db" where
  "webhook_dispatch b d =
    (case payment b of
       NoPayment \<Rightarrow> (WebhookFailed, d)
     | NoEntity \<Rightarrow>
        if event b = Some ''payment.captured'' then (WebhookFailed, d)
        else if event b = Some ''payment.failed'' then (WebhookFailed, d)
        else (WebhookOk, d)
     | Entity payload \<Rightarrow>
        if event b = Some ''payment.captured'' then (WebhookOk, payment_captured payload d)
        else if event b = Some ''payment.failed'' then (WebhookOk, payment_failed payload d)
        else (WebhookOk, d))"

definition webhook ::
  "(string \<Rightarrow> string \<Rightarrow> string) \<Rightarrow> (webhook_body \<Rightarrow> string) \<Rightarrow> env \<Rightarrow> webhook_request \<Rightarrow> db
     \<Rightarrow> response \<times> db" where
  "webhook createHmac stringify e req d =
    (if webhook_rejected createHmac stringify e req then (WebhookRejected, d)
     else webhook_dispatch (body req) d)"

section \<open>POST /create-order and POST /create-upi-payment\<close>

text \<open>
  Both routes compute the total with the same four statements: a left-to-right
  \<^verbatim>\<open>reduce\<close> from 0, the shipping threshold, the tax and the sum, all on JavaScript
  numbers.
\<close>

definition subtotal_of :: "item list \<Rightarrow> double" where
  "subtotal_of its = foldl (\<lambda>sum it. fadd sum (fmul (price it) (quantity it))) lit_0 its"

definition shipping_of :: "double \<Rightarrow> double" where
  "shipping_of subtotal = (if fgt subtotal lit_50 then lit_0 else lit_10)"

definition tax_of :: "double \<Rightarrow> double" where
  "tax_of subtotal = fmul subtotal lit_0_1"

definition total_of :: "item list \<Rightarrow> double" where
  "total_of its =
    (let subtotal = subtotal_of its;
         shipping = shipping_of subtotal;
         tax = tax_of subtotal
     in fadd (fadd subtotal shipping) tax)"

record create_request =
  req_items :: "item list option"
  req_shippingAddress :: "shipping_address option"

record upi_create_request =
  upi_items :: "item list option"
  upi_shippingAddress :: "shipping_address option"
  req_upiVPA :: "string option"

text \<open>The argument and the result of \<^verbatim>\<open>razorpay.orders.create\<close>.\<close>

record gateway_request =
  amount :: double
  currency :: string
  receipt :: string
  gw_method :: "string option"
  note_orderId :: string
  note_userId :: string
  note_userEmail :: "string option"
  note_upiVPA :: "string option"

record gateway_order =
  gw_id :: string
  gw_amount :: double
  gw_currency :: string

text \<open>
  What the Order model supplies to a new document: its \<^verbatim>\<open>_id\<close> and its
  \<^verbatim>\<open>orderNumber\<close>.
\<close>

record fresh =
  new_id :: string
  new_orderNumber :: string

text \<open>
  The routes are given \<open>validate\<close>, the schema validation that \<^verbatim>\<open>order.save()\<close> runs on
  a new document (\<^verbatim>\<open>models/Order.js\<close>; a failed validation throws), and \<open>orders_create\<close>,
  the gateway call (\<open>None\<close> when it throws). Each route returns its response, the
  store, and the gateway calls it made. \<open>new_razorpay_order\<close> and \<open>new_upi_order\<close>
  are the documents that the two routes build with \<^verbatim>\<open>new Order({...})\<close>.
\<close>

definition new_razorpay_order ::
  "user_doc \<Rightarrow> fresh \<Rightarrow> item list \<Rightarrow> shipping_address option \<Rightarrow> order" where
  "new_razorpay_order u fr its ship =
    \<lparr>user = user_id u, items = its, totalAmount = total_of its, shippingAddress = ship,
     paymentMethod = ''razorpay'', paymentStatus = ''pending'', status = ''pending'',
     upiVPA = None, orderNumber = new_orderNumber fr, razorpayOrderId = None,
     razorpayPaymentId = None, razorpaySignature = None\<rparr>"

definition create_order ::
  "(order \<Rightarrow> bool) \<Rightarrow> (gateway_request \<Rightarrow> gateway_order option) \<Rightarrow> env \<Rightarrow> user_doc option
     \<Rightarrow> fresh \<Rightarrow> create_request \<Rightarrow> db \<Rightarrow> response \<times> db \<times> gateway_request list" where
  "create_order validate orders_create e actor fr req d =
    (case actor of
       None \<Rightarrow> (unauthenticated, d, [])
     | Some u \<Rightarrow>
        (case req_items req of
           None \<Rightarrow> (Failure 400 ''Cart items are required'', d, [])
         | Some its \<Rightarrow>
            if its = [] then (Failure 400 ''Cart items are required'', d, [])
            else
              let ord = new_razorpay_order u fr its (req_shippingAddress req)
              in if \<not> validate ord then (Failure 500 ''Failed to create order'', d, [])
                 else
                   let d1 = d(new_id fr \<mapsto> ord);
                       greq = \<lparr>amount = math_round (fmul (totalAmount ord) lit_100),
                               currency = ''INR'', receipt = orderNumber ord,
                               gw_method = None, note_orderId = new_id fr,
                               note_userId = user_id u,
                               note_userEmail = Some (user_email u), note_upiVPA = None\<rparr>
                   in (case orders_create greq of
                         None \<Rightarrow> (Failure 500 ''Failed to create order'', d1, [greq])
                       | Some g \<Rightarrow>
                           (OrderCreated (new_id fr) (gw_id g) (gw_amount g) (gw_currency g)
                              (RAZORPAY_KEY_ID e),
                            d1(new_id fr \<mapsto> ord\<lparr>razorpayOrderId := Some (gw_id g)\<rparr>),
                            [greq]))))"

text \<open>
  \<open>number_text\<close> stands for the number-to-string conversion of the template literal that
  builds the UPI link.
\<close>

definition new_upi_order ::
  "user_doc \<Rightarrow> fresh \<Rightarrow> item list \<Rightarrow> shipping_address option \<Rightarrow> string option \<Rightarrow> order"
  where
  "new_upi_order u fr its ship vpa =
    \<lparr>user = user_id u, items = its, totalAmount = total_of its, shippingAddress = ship,
     paymentMethod = ''upi'', paymentStatus = ''pending'', status = ''pending'',
     upiVPA = vpa, orderNumber = new_orderNumber fr, razorpayOrderId = None,
     razorpayPaymentId = None, razorpaySignature = None\<rparr>"

definition create_upi_payment ::
  "(order \<Rightarrow> bool) \<Rightarrow> (gateway_request \<Rightarrow> gateway_order option) \<Rightarrow> (double \<Rightarrow> string) \<Rightarrow> env
     \<Rightarrow> user_doc option \<Rightarrow> fresh \<Rightarrow> upi_create_request \<Rightarrow> db
     \<Rightarrow> response \<times> db \<times> gateway_request list" where
  "create_upi_payment validate orders_create number_text e actor fr req d =
    (case actor of
       None \<Rightarrow> (unauthenticated, d, [])
     | Some u \<Rightarrow>
        (case upi_items req of
           None \<Rightarrow> (Failure 400 ''Cart items are required'', d, [])
         | Some its \<Rightarrow>
            if its = [] then (Failure 400 ''Cart items are required'', d, [])
            else if \<not> truthy (req_upiVPA req) then (Failure 400 ''UPI VPA is required'', d, [])
            else
              let ord = new_upi_order u fr its (upi_shippingAddress req) (req_upiVPA req)
              in if \<not> validate ord then (Failure 500 ''Failed to create UPI payment'', d, [])
                 else
                   let d1 = d(new_id fr \<mapsto> ord);
                       greq = \<lparr>amount = math_round (fmul (totalAmount ord) lit_100),
                               currency = ''INR'', receipt = orderNumber ord,
                               gw_method = Some ''upi'', note_orderId = new_id fr,
                               note_userId = user_id u,
                               note_userEmail = None, note_upiVPA = req_upiVPA req\<rparr>
                   in (case orders_create greq of
                         None \<Rightarrow> (Failure 500 ''Failed to create UPI payment'', d1, [greq])
                       | Some g \<Rightarrow>
                           let upiLink = ''upi://pay?pa='' @ js_string (req_upiVPA req)
                                 @ ''&pn=ProductLab&am='' @ number_text (totalAmount ord)
                                 @ ''&cu=INR&tn=Order '' @ orderNumber ord
                           in (UpiCreated (new_id fr) (orderNumber ord) (gw_id g) upiLink
                                 (totalAmount ord) (RAZORPAY_KEY_ID e),
                               d1(new_id fr \<mapsto> ord\<lparr>razorpayOrderId := Some (gw_id g)\<rparr>),
                               [greq]))))"

text \<open>
  Modelled from the spec: \<^verbatim>\<open>models/Order.js\<close>, the schema of the Order document, is
  not among the source files. The spec's data model gives each line item a quantity of
  at least 1 and makes every field of the shipping address required and non-empty; it
  puts no bound on the unit price.
\<close>

definition order_schema :: "order \<Rightarrow> bool" where
  "order_schema ord =
    (list_all (\<lambda>it. quantity it = Finite 1 \<or> fgt (quantity it) (Finite 1)) (items ord)
     \<and> (case shippingAddress ord of
          None \<Rightarrow> False
        | Some a \<Rightarrow> fullName a \<noteq> [] \<and> address a \<noteq> [] \<and> city a \<noteq> [] \<and> state a \<noteq> []
                    \<and> zipCode a \<noteq> [] \<and> country a \<noteq> []))"

section \<open>Concrete data for worked instances\<close>

text \<open>
  The routes are parametric in the digest function, the serialiser and the gateway. At
  concrete inputs they are instantiated with stand-ins: \<open>keyed_tag\<close> keeps key and
  message apart, \<open>body_text\<close> renders the fields of a webhook body, \<open>gateway_ok\<close>
  accepts every order. Nothing proved with them depends on more than equality of their
  results.
\<close>

definition keyed_tag :: "string \<Rightarrow> string \<Rightarrow> string" where
  "keyed_tag key msg = key @ '':'' @ msg"

definition body_text :: "webhook_body \<Rightarrow> string" where
  "body_text b =
    js_string (event b) @ ''/'' @
    (case payment b of
       NoPayment \<Rightarrow> ''-''
     | NoEntity \<Rightarrow> ''?''
     | Entity p \<Rightarrow> js_string (entity_id p) @ ''/'' @ js_string (notes_orderId p))"

definition gateway_ok :: "gateway_request \<Rightarrow> gateway_order option" where
  "gateway_ok g = Some \<lparr>gw_id = ''order_'' @ receipt g, gw_amount = amount g,
                         gw_currency = currency g\<rparr>"

definition env0 :: env where
  "env0 = \<lparr>RAZORPAY_KEY_ID = Some ''rzp_test_1'', RAZORPAY_KEY_SECRET = Some ''s3cr3t'',
            RAZORPAY_WEBHOOK_SECRET = Some ''whs3c''\<rparr>"

definition env_no_webhook_secret :: env where
  "env_no_webhook_secret = \<lparr>RAZORPAY_KEY_ID = Some ''rzp_test_1'',
            RAZORPAY_KEY_SECRET = Some ''s3cr3t'', RAZORPAY_WEBHOOK_SECRET = None\<rparr>"

definition alice :: user_doc where
  "alice = \<lparr>user_id = ''u1'', user_email = ''alice@example.org''\<rparr>"

definition mallory :: user_doc where
  "mallory = \<lparr>user_id = ''u2'', user_email = ''mallory@example.org''\<rparr>"

definition home :: shipping_address where
  "home = \<lparr>fullName = ''Alice A'', address = ''1 Main St'', city = ''Pune'',
            state = ''MH'', zipCode = ''411001'', country = ''IN''\<rparr>"

definition order0 :: order where
  "order0 = \<lparr>user = ''u1'', items = [\<lparr>price = Finite 100, quantity = Finite 1\<rparr>],
              totalAmount = Finite 110, shippingAddress = Some home,
              paymentMethod = ''razorpay'', paymentStatus = ''pending'', status = ''pending'',
              upiVPA = None, orderNumber = ''ORD-1'', razorpayOrderId = Some ''order_G1'',
              razorpayPaymentId = None, razorpaySignature = None\<rparr>"

definition db0 :: db where
  "db0 = Map.empty(''o1'' \<mapsto> order0)"

definition verify_ok :: verify_request where
  "verify_ok = \<lparr>razorpay_order_id = Some ''order_G1'', razorpay_payment_id = Some ''pay_P1'',
                 razorpay_signature = Some ''s3cr3t:order_G1|pay_P1'', orderId = Some ''o1''\<rparr>"

definition verify_forged :: verify_request where
  "verify_forged = \<lparr>razorpay_order_id = Some ''order_G1'',
                     razorpay_payment_id = Some ''pay_P1'',
                     razorpay_signature = Some ''forged'', orderId = Some ''o1''\<rparr>"

definition order_done :: order where
  "order_done = order0\<lparr>paymentStatus := ''completed'', status := ''processing'',
                        razorpayPaymentId := Some ''pay_P1'',
                        razorpaySignature := Some ''s3cr3t:order_G1|pay_P1''\<rparr>"

definition db_done :: db where
  "db_done = Map.empty(''o1'' \<mapsto> order_done)"

definition order_upi :: order where
  "order_upi = order0\<lparr>paymentMethod := ''upi'', upiVPA := Some ''alice@upi''\<rparr>"

definition db_upi :: db where
  "db_upi = Map.empty(''o2'' \<mapsto> order_upi)"

definition captured_body :: webhook_body where
  "captured_body = \<lparr>event = Some ''payment.captured'',
      payment = Entity \<lparr>entity_id = Some ''pay_P1'', notes_orderId = Some ''o1''\<rparr>\<rparr>"

definition failed_body :: webhook_body where
  "failed_body = \<lparr>event = Some ''payment.failed'',
      payment = Entity \<lparr>entity_id = Some ''pay_P1'', notes_orderId = Some ''o1''\<rparr>\<rparr>"

definition signed :: "webhook_body \<Rightarrow> webhook_request" where
  "signed b = \<lparr>x_razorpay_signature = Some (keyed_tag ''whs3c'' (body_text b)), body = b\<rparr>"

definition unsigned :: "webhook_body \<Rightarrow> webhook_request" where
  "unsigned b = \<lparr>x_razorpay_signature = None, body = b\<rparr>"

definition forged :: "webhook_body \<Rightarrow> webhook_request" where
  "forged b = \<lparr>x_razorpay_signature = Some ''forged'', body = b\<rparr>"

definition fresh9 :: fresh where
  "fresh9 = \<lparr>new_id = ''o9'', new_orderNumber = ''ORD-9''\<rparr>"

definition cart :: "rat \<Rightarrow> rat \<Rightarrow> create_request" where
  "cart p q = \<lparr>req_items = Some [\<lparr>price = Finite p, quantity = Finite q\<rparr>],
               req_shippingAddress = Some home\<rparr>"

text \<open>The terminal payment states of the spec's state machine.\<close>

definition terminal :: "string \<Rightarrow> bool" where
  "terminal s = (s = ''completed'' \<or> s = ''failed'')"

section \<open>Properties of payment verification\<close>

text \<open>
  C1. A verify-payment request of an authenticated user that carries the three gateway
  fields, whose signature equals the hex HMAC-SHA256 of
  \<open>gatewayOrderId | gatewayPaymentId\<close> under the configured key secret, and whose
  \<open>orderId\<close> names a stored Order, sets that Order's \<open>paymentStatus\<close> to
  \<open>completed\<close> and its \<open>status\<close> to \<open>processing\<close>, stores the gateway payment id and
  the signature on it, saves it, and returns the updated Order.
\<close>

theorem verify_payment_authentic:
  assumes "razorpay_order_id req = Some goid" and "goid \<noteq> []"
    and "razorpay_payment_id req = Some gpid" and "gpid \<noteq> []"
    and "RAZORPAY_KEY_SECRET e = Some secret"
    and "razorpay_signature req = Some (createHmac secret (goid @ ''|'' @ gpid))"
    and "createHmac secret (goid @ ''|'' @ gpid) \<noteq> []"
    and "orderId req = Some k" and "d k = Some ord"
  shows "verify_payment createHmac e (Some u) req d =
           (Verified ''Payment verified successfully''
              (ord\<lparr>paymentStatus := ''completed'', status := ''processing'',
                    razorpayPaymentId := Some gpid,
                    razorpaySignature := Some (createHmac secret (goid @ ''|'' @ gpid))\<rparr>),
            d(k \<mapsto> ord\<lparr>paymentStatus := ''completed'', status := ''processing'',
                    razorpayPaymentId := Some gpid,
                    razorpaySignature := Some (createHmac secret (goid @ ''|'' @ gpid))\<rparr>))"
  using assms by (simp add: verify_payment_def Let_def)

theorem verify_payment_authentic_witness:
  "verify_payment keyed_tag env0 (Some alice) verify_ok db0
   = (Verified ''Payment verified successfully''
        (order0\<lparr>paymentStatus := ''completed'', status := ''processing'',
                razorpayPaymentId := Some ''pay_P1'',
                razorpaySignature := Some ''s3cr3t:order_G1|pay_P1''\<rparr>),
      db0(''o1'' \<mapsto> order0\<lparr>paymentStatus := ''completed'', status := ''processing'',
                razorpayPaymentId := Some ''pay_P1'',
                razorpaySignature := Some ''s3cr3t:order_G1|pay_P1''\<rparr>))"
  using verify_payment_authentic [of verify_ok "''order_G1''" "''pay_P1''" env0 "''s3cr3t''"
      keyed_tag "''o1''" db0 order0 alice]
  by (simp add: keyed_tag_def env0_def db0_def verify_ok_def)

text \<open>
  C5. A verify-payment request of an authenticated user that carries the three gateway
  fields, names a stored Order, and whose signature differs from the recomputed HMAC,
  sets the Order's \<open>paymentStatus\<close> to \<open>failed\<close>, saves it, and answers with the
  route's own 400 "Payment verification failed" response, not with the 500 response of
  the route's exception handler.
\<close>

theorem verify_payment_mismatch:
  assumes "razorpay_order_id req = Some goid" and "goid \<noteq> []"
    and "razorpay_payment_id req = Some gpid" and "gpid \<noteq> []"
    and "razorpay_signature req = Some sig" and "sig \<noteq> []"
    and "RAZORPAY_KEY_SECRET e = Some secret"
    and "sig \<noteq> createHmac secret (goid @ ''|'' @ gpid)"
    and "orderId req = Some k" and "d k = Some ord"
  shows "verify_payment createHmac e (Some u) req d =
           (Failure 400 ''Payment verification failed'',
            d(k \<mapsto> ord\<lparr>paymentStatus := ''failed''\<rparr>))"
  using assms by (auto simp add: verify_payment_def Let_def)

theorem verify_payment_mismatch_witness:
  "verify_payment keyed_tag env0 (Some alice) verify_forged db0
   = (Failure 400 ''Payment verification failed'',
      db0(''o1'' \<mapsto> order0\<lparr>paymentStatus := ''failed''\<rparr>))"
  using verify_payment_mismatch [of verify_forged "''order_G1''" "''pay_P1''" "''forged''"
      env0 "''s3cr3t''" keyed_tag "''o1''" db0 order0 alice]
  by (simp add: keyed_tag_def env0_def db0_def verify_forged_def)

text \<open>
  The status route compares the Order's owner with the caller before it answers.
\<close>

lemma get_status_not_owner:
  assumes "d k = Some ord" and "user ord \<noteq> user_id u"
  shows "get_status (Some u) k d = (Failure 403 ''Access denied'', d)"
  using assms by (simp add: get_status_def)

lemma verify_payment_ignores_actor:
  "verify_payment createHmac e (Some u) req d = verify_payment createHmac e (Some u') req d"
  by (simp add: verify_payment_def)

text \<open>
  C3. A caller who does not own the Order is refused by the status route, but not by
  verify-payment: there the caller \<open>mallory\<close>, who is not the owner \<open>u1\<close> of Order
  \<open>o1\<close>, is answered with the updated Order, and the stored Order is changed.
\<close>

theorem verify_payment_by_non_owner:
  "user order0 \<noteq> user_id mallory \<and>
   get_status (Some mallory) ''o1'' db0 = (Failure 403 ''Access denied'', db0) \<and>
   verify_payment keyed_tag env0 (Some mallory) verify_ok db0
     = (Verified ''Payment verified successfully''
          (order0\<lparr>paymentStatus := ''completed'', status := ''processing'',
                  razorpayPaymentId := Some ''pay_P1'',
                  razorpaySignature := Some ''s3cr3t:order_G1|pay_P1''\<rparr>),
        db0(''o1'' \<mapsto> order0\<lparr>paymentStatus := ''completed'', status := ''processing'',
                  razorpayPaymentId := Some ''pay_P1'',
                  razorpaySignature := Some ''s3cr3t:order_G1|pay_P1''\<rparr>))"
  by (simp add: verify_payment_def get_status_def Let_def keyed_tag_def env0_def db0_def
      verify_ok_def order0_def mallory_def)

theorem verify_payment_by_non_owner_witness:
  "fst (verify_payment keyed_tag env0 (Some mallory) verify_ok db0)
     \<noteq> Failure 403 ''Access denied''"
  using verify_payment_by_non_owner by simp

section \<open>Properties of the webhook handler\<close>

lemma payment_captured_twice:
  "payment_captured p (payment_captured p d) = payment_captured p d"
  by (auto simp add: payment_captured_def split: option.splits)

lemma webhook_dispatch_captured_twice:
  assumes "event b = Some ''payment.captured''"
  shows "webhook_dispatch b (snd (webhook_dispatch b d)) = webhook_dispatch b d"
  using assms
  by (cases "payment b") (simp_all add: webhook_dispatch_def payment_captured_twice)

text \<open>
  C7. Handling a payment-captured event is idempotent. Handling the same delivery a
  second time gives the same response and the same store as handling it once. When the
  delivery passes the signature step and its metadata order id names a stored Order, the
  handler acknowledges; an Order not yet \<open>completed\<close> becomes \<open>completed\<close> /
  \<open>processing\<close> with the provider's payment id stored, and an Order already
  \<open>completed\<close> is left as it is.
\<close>

theorem webhook_captured_idempotent:
  assumes "event (body req) = Some ''payment.captured''"
  shows "webhook createHmac stringify e req (snd (webhook createHmac stringify e req d))
           = webhook createHmac stringify e req d
       \<and> (\<not> webhook_rejected createHmac stringify e req \<and> payment (body req) = Entity p
            \<and> notes_orderId p = Some k \<and> k \<noteq> [] \<and> d k = Some ord \<longrightarrow>
          webhook createHmac stringify e req d =
            (WebhookOk,
             if paymentStatus ord = ''completed'' then d
             else d(k \<mapsto> ord\<lparr>paymentStatus := ''completed'', status := ''processing'',
                               razorpayPaymentId := entity_id p\<rparr>)))"
proof -
  have twice: "webhook createHmac stringify e req (snd (webhook createHmac stringify e req d))
           = webhook createHmac stringify e req d"
    using webhook_dispatch_captured_twice [OF assms] by (simp add: webhook_def)
  have once: "webhook createHmac stringify e req d =
            (WebhookOk,
             if paymentStatus ord = ''completed'' then d
             else d(k \<mapsto> ord\<lparr>paymentStatus := ''completed'', status := ''processing'',
                               razorpayPaymentId := entity_id p\<rparr>))"
    if "\<not> webhook_rejected createHmac stringify e req" and "payment (body req) = Entity p"
      and "notes_orderId p = Some k" and "k \<noteq> []" and "d k = Some ord"
    using that assms by (simp add: webhook_def webhook_dispatch_def payment_captured_def)
  from twice once show ?thesis by blast
qed

theorem webhook_captured_idempotent_witness:
  "webhook keyed_tag body_text env0 (signed captured_body) db0
     = (WebhookOk,
        db0(''o1'' \<mapsto> order0\<lparr>paymentStatus := ''completed'', status := ''processing'',
                                razorpayPaymentId := Some ''pay_P1''\<rparr>))
   \<and> webhook keyed_tag body_text env0 (signed captured_body)
        (snd (webhook keyed_tag body_text env0 (signed captured_body) db0))
      = webhook keyed_tag body_text env0 (signed captured_body) db0"
proof -
  let ?req = "signed captured_body"
  let ?p = "\<lparr>entity_id = Some ''pay_P1'', notes_orderId = Some ''o1''\<rparr>"
  have ev: "event (body ?req) = Some ''payment.captured''"
    by (simp add: signed_def captured_body_def)
  have pre: "\<not> webhook_rejected keyed_tag body_text env0 ?req"
    "payment (body ?req) = Entity ?p" "notes_orderId ?p = Some ''o1''" "''o1'' \<noteq> []"
    "db0 ''o1'' = Some order0" "paymentStatus order0 \<noteq> ''completed''"
    by (simp_all add: signed_def captured_body_def webhook_rejected_def env0_def db0_def
        order0_def)
  note th = webhook_captured_idempotent [OF ev, where createHmac = keyed_tag
      and stringify = body_text and e = env0 and d = db0 and p = ?p and k = "''o1''"
      and ord = order0]
  from th pre have "webhook keyed_tag body_text env0 ?req db0 =
      (WebhookOk,
       if paymentStatus order0 = ''completed'' then db0
       else db0(''o1'' \<mapsto> order0\<lparr>paymentStatus := ''completed'', status := ''processing'',
                                    razorpayPaymentId := entity_id ?p\<rparr>))"
    by blast
  with pre(6) have once: "webhook keyed_tag body_text env0 ?req db0 =
      (WebhookOk,
       db0(''o1'' \<mapsto> order0\<lparr>paymentStatus := ''completed'', status := ''processing'',
                               razorpayPaymentId := Some ''pay_P1''\<rparr>))"
    by simp
  from th have twice: "webhook keyed_tag body_text env0 ?req
        (snd (webhook keyed_tag body_text env0 ?req db0))
      = webhook keyed_tag body_text env0 ?req db0"
    by blast
  from once twice show ?thesis by blast
qed

text \<open>
  C10. With no webhook secret configured the handler checks no signature: whatever the
  signature header holds, the delivery is dispatched on its parsed event, and so it
  moves the Order named in its metadata to \<open>completed\<close> (payment.captured, Order not
  yet completed) or to \<open>failed\<close> (payment.failed).
\<close>

theorem webhook_without_secret:
  assumes "\<not> truthy (RAZORPAY_WEBHOOK_SECRET e)"
  shows "webhook createHmac stringify e req d = webhook_dispatch (body req) d
       \<and> (payment (body req) = Entity p \<and> notes_orderId p = Some k \<and> k \<noteq> []
            \<and> d k = Some ord \<longrightarrow>
            (event (body req) = Some ''payment.captured''
               \<and> paymentStatus ord \<noteq> ''completed'' \<longrightarrow>
             webhook createHmac stringify e req d =
               (WebhookOk,
                d(k \<mapsto> ord\<lparr>paymentStatus := ''completed'', status := ''processing'',
                               razorpayPaymentId := entity_id p\<rparr>)))
          \<and> (event (body req) = Some ''payment.failed'' \<longrightarrow>
             webhook createHmac stringify e req d =
               (WebhookOk, d(k \<mapsto> ord\<lparr>paymentStatus := ''failed''\<rparr>))))"
  using assms
  by (simp add: webhook_def webhook_rejected_def webhook_dispatch_def payment_captured_def
      payment_failed_def)

theorem webhook_without_secret_witness:
  "webhook keyed_tag body_text env_no_webhook_secret (unsigned failed_body) db0
     = (WebhookOk, db0(''o1'' \<mapsto> order0\<lparr>paymentStatus := ''failed''\<rparr>))"
proof -
  let ?req = "unsigned failed_body"
  let ?p = "\<lparr>entity_id = Some ''pay_P1'', notes_orderId = Some ''o1''\<rparr>"
  have ns: "\<not> truthy (RAZORPAY_WEBHOOK_SECRET env_no_webhook_secret)"
    by (simp add: env_no_webhook_secret_def)
  have pre: "payment (body ?req) = Entity ?p" "notes_orderId ?p = Some ''o1''"
    "''o1'' \<noteq> []" "db0 ''o1'' = Some order0" "event (body ?req) = Some ''payment.failed''"
    by (simp_all add: unsigned_def failed_body_def db0_def)
  from webhook_without_secret [OF ns, where createHmac = keyed_tag and stringify = body_text
      and req = ?req and d = db0 and p = ?p and k = "''o1''" and ord = order0] pre
  show ?thesis by blast
qed

text \<open>
  C4 (as the handler has it). When a webhook secret is configured, the handler compares
  the signature header with the digest it computes from the request body before it
  reads the event or the payload: a delivery whose header differs is answered with the
  rejection status, nothing is dispatched and no Order changes; only a delivery whose
  header equals the digest is dispatched.
\<close>

theorem webhook_signature_gate:
  assumes "RAZORPAY_WEBHOOK_SECRET e = Some secret" and "secret \<noteq> []"
  shows "webhook createHmac stringify e req d =
           (if x_razorpay_signature req = Some (createHmac secret (stringify (body req)))
            then webhook_dispatch (body req) d
            else (WebhookRejected, d))"
  using assms by (simp add: webhook_def webhook_rejected_def)

theorem webhook_signature_gate_witness:
  "webhook keyed_tag body_text env0 (forged captured_body) db0 = (WebhookRejected, db0)"
proof -
  have s: "RAZORPAY_WEBHOOK_SECRET env0 = Some ''whs3c''" "''whs3c'' \<noteq> []"
    by (simp_all add: env0_def)
  have "x_razorpay_signature (forged captured_body)
          \<noteq> Some (keyed_tag ''whs3c'' (body_text (body (forged captured_body))))"
    by (simp add: forged_def keyed_tag_def)
  with webhook_signature_gate [OF s, of keyed_tag body_text "forged captured_body" db0]
  show ?thesis by simp
qed

text \<open>
  The claim as stated fails where no secret is configured: a delivery with a forged
  signature header is dispatched and completes the Order.
\<close>

theorem webhook_unverified_counterexample:
  "webhook keyed_tag body_text env_no_webhook_secret (forged captured_body) db0
     = (WebhookOk,
        db0(''o1'' \<mapsto> order0\<lparr>paymentStatus := ''completed'', status := ''processing'',
                                razorpayPaymentId := Some ''pay_P1''\<rparr>))"
  by (simp add: webhook_def webhook_rejected_def webhook_dispatch_def payment_captured_def
      env_no_webhook_secret_def forged_def captured_body_def db0_def order0_def)

section \<open>Terminal payment states\<close>

lemma verify_payment_terminal:
  assumes "d k = Some ord" and "terminal (paymentStatus ord)"
  shows "\<exists>ord'. snd (verify_payment createHmac e actor req d) k = Some ord'
               \<and> terminal (paymentStatus ord')"
  using assms
  by (auto simp add: verify_payment_def terminal_def Let_def split: option.splits)

lemma verify_upi_terminal:
  assumes "d k = Some ord" and "terminal (paymentStatus ord)"
  shows "\<exists>ord'. snd (verify_upi createHmac e actor k' req d) k = Some ord'
               \<and> terminal (paymentStatus ord')"
  using assms
  by (auto simp add: verify_upi_def terminal_def Let_def split: option.splits)

lemma payment_captured_terminal:
  assumes "d k = Some ord" and "terminal (paymentStatus ord)"
  shows "\<exists>ord'. payment_captured p d k = Some ord' \<and> terminal (paymentStatus ord')"
  using assms
  by (auto simp add: payment_captured_def terminal_def split: option.splits)

lemma payment_failed_terminal:
  assumes "d k = Some ord" and "terminal (paymentStatus ord)"
  shows "\<exists>ord'. payment_failed p d k = Some ord' \<and> terminal (paymentStatus ord')"
  using assms
  by (auto simp add: payment_failed_def terminal_def split: option.splits)

lemma webhook_terminal:
  assumes "d k = Some ord" and "terminal (paymentStatus ord)"
  shows "\<exists>ord'. snd (webhook createHmac stringify e req d) k = Some ord'
               \<and> terminal (paymentStatus ord')"
  using assms payment_captured_terminal [where d = d and k = k and ord = ord]
    payment_failed_terminal [where d = d and k = k and ord = ord]
  by (simp add: webhook_def webhook_dispatch_def split: entity_access.splits)

lemma payment_captured_keeps_completed:
  assumes "d k = Some ord" and "paymentStatus ord = ''completed''"
  shows "payment_captured p d k = Some ord"
  using assms by (auto simp add: payment_captured_def split: option.splits)

lemma webhook_captured_keeps_completed:
  assumes "d k = Some ord" and "paymentStatus ord = ''completed''"
    and "event (body req) = Some ''payment.captured''"
  shows "snd (webhook createHmac stringify e req d) k = Some ord"
  using assms payment_captured_keeps_completed [where d = d and k = k and ord = ord]
  by (simp add: webhook_def webhook_dispatch_def split: entity_access.splits)

text \<open>
  C2 (as the routes have it). An Order whose \<open>paymentStatus\<close> is terminal
  (\<open>completed\<close> or \<open>failed\<close>) still has a terminal \<open>paymentStatus\<close> after any call of
  verify-payment, verify-upi or the webhook handler: none of them returns it to
  \<open>pending\<close>. A payment-captured delivery leaves an Order that is already
  \<open>completed\<close> exactly as it is.
\<close>

theorem terminal_states_closed:
  assumes "d k = Some ord" and "terminal (paymentStatus ord)"
  shows "(\<exists>ord'. snd (verify_payment createHmac e actor req d) k = Some ord'
               \<and> terminal (paymentStatus ord'))
       \<and> (\<exists>ord'. snd (verify_upi createHmac e actor k' ureq d) k = Some ord'
               \<and> terminal (paymentStatus ord'))
       \<and> (\<exists>ord'. snd (webhook createHmac stringify e wreq d) k = Some ord'
               \<and> terminal (paymentStatus ord'))
       \<and> (event (body wreq) = Some ''payment.captured''
             \<and> paymentStatus ord = ''completed'' \<longrightarrow>
           snd (webhook createHmac stringify e wreq d) k = Some ord)"
  using assms verify_payment_terminal [where d = d and k = k and ord = ord]
    verify_upi_terminal [where d = d and k = k and ord = ord]
    webhook_terminal [where d = d and k = k and ord = ord]
    webhook_captured_keeps_completed [where d = d and k = k and ord = ord]
  by blast

theorem terminal_states_closed_witness:
  "snd (webhook keyed_tag body_text env0 (signed captured_body) db_done) ''o1''
     = Some order_done
   \<and> (\<exists>ord'. snd (verify_payment keyed_tag env0 (Some alice) verify_forged db_done) ''o1''
               = Some ord' \<and> terminal (paymentStatus ord'))"
proof -
  have pre: "db_done ''o1'' = Some order_done" "terminal (paymentStatus order_done)"
    "event (body (signed captured_body)) = Some ''payment.captured''"
    "paymentStatus order_done = ''completed''"
    by (simp_all add: db_done_def order_done_def terminal_def signed_def captured_body_def)
  from terminal_states_closed [where d = db_done and k = "''o1''" and ord = order_done
      and createHmac = keyed_tag and stringify = body_text and e = env0
      and wreq = "signed captured_body" and actor = "Some alice" and req = verify_forged]
    pre
  show ?thesis by blast
qed

text \<open>
  The claim as stated fails: a correctly signed payment.failed delivery for an Order
  that is already \<open>completed\<close> sets it to \<open>failed\<close>, and so does a verify-payment
  request with a wrong signature.
\<close>

theorem webhook_failed_downgrades_counterexample:
  "paymentStatus order_done = ''completed''
   \<and> webhook keyed_tag body_text env0 (signed failed_body) db_done
       = (WebhookOk, db_done(''o1'' \<mapsto> order_done\<lparr>paymentStatus := ''failed''\<rparr>))
   \<and> verify_payment keyed_tag env0 (Some alice) verify_forged db_done
       = (Failure 400 ''Payment verification failed'',
          db_done(''o1'' \<mapsto> order_done\<lparr>paymentStatus := ''failed''\<rparr>))"
  by (simp add: webhook_def webhook_rejected_def webhook_dispatch_def payment_failed_def
      verify_payment_def verify_forged_def keyed_tag_def Let_def
      env0_def signed_def failed_body_def db_done_def order_done_def)

section \<open>Verification of a UPI payment\<close>

text \<open>
  The branches of verify-upi for a stored Order and a configured key secret: the method
  check, the match branch and the mismatch branch.
\<close>

lemma verify_upi_branches:
  assumes "d k = Some ord" and "RAZORPAY_KEY_SECRET e = Some secret"
  shows "verify_upi createHmac e (Some u) k req d =
          (if paymentMethod ord \<noteq> ''upi''
           then (Failure 400 ''Invalid payment method for this order'', d)
           else if upi_razorpay_signature req =
                   Some (createHmac secret (js_string (upi_razorpay_order_id req) @ ''|''
                                              @ js_string (upi_razorpay_payment_id req)))
           then (Verified ''UPI payment verified successfully''
                   (ord\<lparr>paymentStatus := ''completed'', status := ''processing'',
                         razorpayPaymentId := upi_razorpay_payment_id req,
                         razorpaySignature := upi_razorpay_signature req\<rparr>),
                 d(k \<mapsto> ord\<lparr>paymentStatus := ''completed'', status := ''processing'',
                         razorpayPaymentId := upi_razorpay_payment_id req,
                         razorpaySignature := upi_razorpay_signature req\<rparr>))
           else (Failure 400 ''Payment verification failed'', d))"
  using assms by (auto simp add: verify_upi_def Let_def)

text \<open>
  C8. verify-upi does not follow the algorithm of verify-payment on a mismatch. For the
  pending UPI Order \<open>o2\<close> and a signature that is not the recomputed HMAC, verify-upi
  answers "Payment verification failed" and saves nothing, so the Order stays
  \<open>pending\<close>; verify-payment, given the same three fields for the same Order, sets
  its \<open>paymentStatus\<close> to \<open>failed\<close> and saves it.
\<close>

theorem verify_upi_mismatch_not_failed:
  "verify_upi keyed_tag env0 (Some alice) ''o2''
     \<lparr>upi_razorpay_payment_id = Some ''pay_P1'', upi_razorpay_order_id = Some ''order_G1'',
      upi_razorpay_signature = Some ''manual_verification''\<rparr> db_upi
   = (Failure 400 ''Payment verification failed'', db_upi)
   \<and> map_option paymentStatus (db_upi ''o2'') = Some ''pending''
   \<and> verify_payment keyed_tag env0 (Some alice)
       \<lparr>razorpay_order_id = Some ''order_G1'', razorpay_payment_id = Some ''pay_P1'',
        razorpay_signature = Some ''manual_verification'', orderId = Some ''o2''\<rparr> db_upi
     = (Failure 400 ''Payment verification failed'',
        db_upi(''o2'' \<mapsto> order_upi\<lparr>paymentStatus := ''failed''\<rparr>))"
  by (simp add: verify_upi_def verify_payment_def Let_def keyed_tag_def env0_def db_upi_def
      order_upi_def order0_def)

theorem verify_upi_mismatch_not_failed_witness:
  "map_option paymentStatus
     (snd (verify_upi keyed_tag env0 (Some alice) ''o2''
             \<lparr>upi_razorpay_payment_id = Some ''pay_P1'',
              upi_razorpay_order_id = Some ''order_G1'',
              upi_razorpay_signature = Some ''manual_verification''\<rparr> db_upi) ''o2'')
     = Some ''pending''"
  using verify_upi_mismatch_not_failed by simp

section \<open>Properties of the number model\<close>

text \<open>
  \<open>ilog2\<close> is the binary exponent, and \<open>round_double\<close> returns the nearest value with
  53 significant bits: if \<open>n\<close> is within one half of \<open>x\<close> measured in units of
  \<open>2^(e-52)\<close>, where \<open>2^e \<le> |x| < 2^(e+1)\<close>, the result is \<open>n \<times> 2^(e-52)\<close>.
\<close>

lemma bitlen_bounds:
  fixes a :: int
  assumes "0 < a"
  shows "(2::rat) powi (int (floorlog 2 (nat a)) - 1) \<le> of_int a"
    and "of_int a < (2::rat) powi (int (floorlog 2 (nat a)))"
proof -
  let ?l = "floorlog 2 (nat a)"
  from assms have pos: "0 < nat a" by simp
  from floorlog_bounds [OF pos, of 2]
  have lo: "2 ^ (?l - 1) \<le> nat a" and hi: "nat a < 2 ^ ?l" by simp_all
  have l1: "1 \<le> ?l" using pos by (simp add: floorlog_def)
  have "(2::rat) ^ (?l - 1) \<le> of_nat (nat a)"
    using lo by (metis of_nat_le_iff of_nat_numeral of_nat_power)
  moreover have "int (?l - 1) = int ?l - 1" using l1 by simp
  ultimately show "(2::rat) powi (int ?l - 1) \<le> of_int a"
    using assms by (metis of_nat_nat order_less_imp_le power_int_of_nat of_int_of_nat_eq)
  have "(of_nat (nat a) :: rat) < 2 ^ ?l"
    using hi by (metis of_nat_less_iff of_nat_numeral of_nat_power)
  then show "of_int a < (2::rat) powi (int ?l)"
    using assms by (metis of_nat_nat order_less_imp_le power_int_of_nat of_int_of_nat_eq)
qed

lemma ilog2_bounds:
  assumes "x \<noteq> 0"
  shows "2 powi (ilog2 x) \<le> \<bar>x\<bar>" and "\<bar>x\<bar> < 2 powi (ilog2 x + 1)"
proof -
  obtain a b where q: "quotient_of \<bar>x\<bar> = (a, b)" by (cases "quotient_of \<bar>x\<bar>")
  have b: "0 < b" using q by (rule quotient_of_denom_pos)
  have xab: "\<bar>x\<bar> = of_int a / of_int b" using q by (rule quotient_of_div)
  have a: "0 < a"
  proof (rule ccontr)
    assume "\<not> 0 < a"
    then have "of_int a / (of_int b :: rat) \<le> 0" using b by (simp add: divide_le_0_iff)
    with xab assms show False by simp
  qed
  let ?la = "int (floorlog 2 (nat a))" and ?lb = "int (floorlog 2 (nat b))"
  let ?e = "?la - ?lb"
  note A = bitlen_bounds [OF a] and B = bitlen_bounds [OF b]
  have Bpos: "(0::rat) < of_int b" using b by simp
  have up: "\<bar>x\<bar> < 2 powi (?e + 1)"
  proof -
    have "of_int a * (2::rat) powi (?lb - 1) \<le> of_int a * of_int b"
      using B(1) a by (intro mult_left_mono) simp_all
    also have "\<dots> < 2 powi ?la * of_int b"
      using A(2) Bpos by (intro mult_strict_right_mono) simp_all
    finally have "of_int a * (2::rat) powi (?lb - 1) < 2 powi ?la * of_int b" .
    then have "of_int a / of_int b < (2::rat) powi ?la / 2 powi (?lb - 1)"
      using Bpos by (simp add: divide_simps mult.commute)
    also have "\<dots> = 2 powi (?la - (?lb - 1))" by (simp add: power_int_diff)
    finally show ?thesis by (simp add: xab algebra_simps)
  qed
  have low: "2 powi (?e - 1) \<le> \<bar>x\<bar>"
  proof -
    have "(2::rat) powi (?la - 1) * of_int b \<le> of_int a * of_int b"
      using A(1) Bpos by (intro mult_right_mono) simp_all
    also have "\<dots> \<le> of_int a * 2 powi ?lb"
      using B(2) a by (intro mult_left_mono) simp_all
    finally have "(2::rat) powi (?la - 1) * of_int b \<le> of_int a * 2 powi ?lb" .
    then have "(2::rat) powi (?la - 1) / 2 powi ?lb \<le> of_int a / of_int b"
      using Bpos by (simp add: divide_simps mult.commute)
    moreover have "(2::rat) powi (?la - 1) / 2 powi ?lb = 2 powi (?la - 1 - ?lb)"
      by (simp add: power_int_diff)
    ultimately show ?thesis by (simp add: xab algebra_simps)
  qed
  show "2 powi (ilog2 x) \<le> \<bar>x\<bar>" using low by (simp add: ilog2_def q Let_def)
  show "\<bar>x\<bar> < 2 powi (ilog2 x + 1)" using up by (auto simp add: ilog2_def q Let_def)
qed

lemma ilog2_unique:
  assumes "2 powi e \<le> \<bar>x\<bar>" and "\<bar>x\<bar> < 2 powi (e + 1)"
  shows "ilog2 x = e"
proof -
  have nz: "x \<noteq> 0"
  proof
    assume "x = 0"
    with assms(1) have "(2::rat) powi e \<le> 0" by simp
    moreover have "(0::rat) < 2 powi e" by (rule zero_less_power_int) simp
    ultimately show False by linarith
  qed
  note I = ilog2_bounds [OF nz]
  have "\<not> ilog2 x < e"
  proof
    assume "ilog2 x < e"
    then have "(2::rat) powi (ilog2 x + 1) \<le> 2 powi e"
      by (intro power_int_increasing) simp_all
    with assms(1) I(2) show False by simp
  qed
  moreover have "\<not> e < ilog2 x"
  proof
    assume "e < ilog2 x"
    then have "(2::rat) powi (e + 1) \<le> 2 powi (ilog2 x)"
      by (intro power_int_increasing) simp_all
    with assms(2) I(1) show False by simp
  qed
  ultimately show ?thesis by simp
qed

lemma round_half_even_near:
  assumes "\<bar>x - of_int n\<bar> < 1/2"
  shows "round_half_even x = n"
proof (cases "of_int n \<le> x")
  case True
  with assms have "\<lfloor>x\<rfloor> = n" by (intro floor_unique) simp_all
  with assms True show ?thesis by (simp add: round_half_even_def Let_def)
next
  case False
  with assms have fl: "\<lfloor>x\<rfloor> = n - 1" by (intro floor_unique) simp_all
  from False assms have "1/2 < x - of_int (n - 1)" by simp
  with fl show ?thesis by (simp add: round_half_even_def Let_def)
qed

lemma round_double_eq:
  assumes "2 powi e \<le> \<bar>x\<bar>" and "\<bar>x\<bar> < 2 powi (e + 1)" and "- 1022 \<le> e"
    and "\<bar>x / 2 powi (e - 52) - of_int n\<bar> < 1/2"
    and "\<bar>of_int n * (2::rat) powi (e - 52)\<bar> < 2 ^ 1024"
  shows "round_double x = Finite (of_int n * 2 powi (e - 52))"
proof -
  have nz: "x \<noteq> 0"
  proof
    assume "x = 0"
    with assms(1) have "(2::rat) powi e \<le> 0" by simp
    moreover have "(0::rat) < 2 powi e" by (rule zero_less_power_int) simp
    ultimately show False by linarith
  qed
  have e: "max (ilog2 x) (- 1022) = e"
    using ilog2_unique [OF assms(1,2)] assms(3) by simp
  have r: "round_half_even (x / 2 powi (e - 52)) = n"
    using assms(4) by (rule round_half_even_near)
  show ?thesis using nz assms(5) by (simp add: round_double_def e r Let_def)
qed


section \<open>Order totals\<close>

lemma total_of_formula:
  "total_of its =
     fadd (fadd (subtotal_of its)
             (if fgt (subtotal_of its) (Finite 50) then Finite 0 else Finite 10))
          (fmul (subtotal_of its) (round_double (1 / 10)))"
  by (simp add: total_of_def shipping_of_def tax_of_def lit_0_def lit_10_def lit_50_def
      lit_0_1_def Let_def)

lemma total_of_single:
  "total_of [\<lparr>price = Finite p, quantity = Finite q\<rparr>] =
    (let sub = fadd (Finite 0) (fmul (Finite p) (Finite q))
     in fadd (fadd sub (if fgt sub (Finite 50) then Finite 0 else Finite 10))
          (fmul sub (round_double (1 / 10))))"
  by (simp add: total_of_def subtotal_of_def shipping_of_def tax_of_def lit_0_def lit_10_def
      lit_50_def lit_0_1_def Let_def)

lemma order_schema_cart:
  "order_schema (new_razorpay_order u fr [\<lparr>price = p, quantity = Finite 1\<rparr>] (Some home))"
  by (simp add: order_schema_def new_razorpay_order_def home_def)

text \<open>The second scenario of the spec: one item of price 10 gives the total 21.\<close>

lemma total_scenario_8:
  "total_of [\<lparr>price = Finite 10, quantity = Finite 1\<rparr>] = Finite 21"
proof -
  have "round_double (1 / 10) = Finite (of_int 7205759403792794 * 2 powi ((- 4) - 52))"
    by (rule round_double_eq) simp_all
  then have c: "round_double (1 / 10) = Finite (3602879701896397 / 36028797018963968)"
    by simp
  have "round_double (10 * 1) = Finite (of_int 5629499534213120 * 2 powi (3 - 52))"
    by (rule round_double_eq) simp_all
  then have m0: "round_double (10 * 1) = Finite 10"
    by simp
  have mul: "fmul (Finite 10) (Finite 1) = Finite 10"
    by (simp only: fmul.simps m0)
  have "round_double (0 + 10) = Finite (of_int 5629499534213120 * 2 powi (3 - 52))"
    by (rule round_double_eq) simp_all
  then have s0: "round_double (0 + 10) = Finite 10"
    by simp
  have sub: "fadd (Finite 0) (Finite 10) = Finite 10"
    by (simp only: fadd.simps s0)
  have gt: "fgt (Finite 10) (Finite 50) = False"
    by simp
  have "round_double (10 * (3602879701896397 / 36028797018963968))
      = Finite (of_int 4503599627370496 * 2 powi (0 - 52))"
    by (rule round_double_eq) simp_all
  then have t0: "round_double (10 * (3602879701896397 / 36028797018963968)) = Finite 1"
    by simp
  have tax: "fmul (Finite 10) (round_double (1 / 10)) = Finite 1"
    by (simp only: c fmul.simps t0)
  have "round_double (10 + 10) = Finite (of_int 5629499534213120 * 2 powi (4 - 52))"
    by (rule round_double_eq) simp_all
  then have a0: "round_double (10 + 10) = Finite 20"
    by simp
  have add1: "fadd (Finite 10) (Finite 10) = Finite 20"
    by (simp only: fadd.simps a0)
  have "round_double (20 + 1) = Finite (of_int 5910974510923776 * 2 powi (4 - 52))"
    by (rule round_double_eq) simp_all
  then have T0: "round_double (20 + 1) = Finite 21"
    by simp
  have add2: "fadd (Finite 20) (Finite 1) = Finite 21"
    by (simp only: fadd.simps T0)
  have total: "total_of [\<lparr>price = Finite 10, quantity = Finite 1\<rparr>] = Finite 21"
    by (simp only: total_of_single Let_def mul sub gt if_True if_False tax add1 add2)
  from total show ?thesis .
qed

lemma create_order_persists:
  assumes "req_items req = Some its" and "its \<noteq> []"
    and "validate (new_razorpay_order u fr its (req_shippingAddress req))"
  shows "\<exists>ord greq.
           fst (snd (create_order validate orders_create e (Some u) fr req d)) (new_id fr)
             = Some ord
           \<and> items ord = its \<and> totalAmount ord = total_of its
           \<and> snd (snd (create_order validate orders_create e (Some u) fr req d)) = [greq]"
  using assms
  by (auto simp add: create_order_def new_razorpay_order_def Let_def split: option.splits)

lemma create_upi_payment_persists:
  assumes "upi_items req = Some its" and "its \<noteq> []" and "truthy (req_upiVPA req)"
    and "validate (new_upi_order u fr its (upi_shippingAddress req) (req_upiVPA req))"
  shows "\<exists>ord greq.
           fst (snd (create_upi_payment validate orders_create number_text e (Some u) fr req d))
             (new_id fr) = Some ord
           \<and> items ord = its \<and> totalAmount ord = total_of its
           \<and> snd (snd (create_upi_payment validate orders_create number_text e (Some u) fr
                          req d)) = [greq]"
  using assms
  by (auto simp add: create_upi_payment_def new_upi_order_def Let_def split: option.splits)

text \<open>
  C6 (as the routes have it). For every non-empty items list that the Order schema
  accepts, create-order and create-upi-payment persist an Order that carries these items
  and whose \<open>totalAmount\<close> is the value recomputed from the persisted items:
  \<open>(subtotal + shipping) + tax\<close> in binary64 arithmetic, each operation rounded, where
  \<open>subtotal\<close> is the left-to-right sum of \<open>price \<times> quantity\<close> from 0, \<open>shipping\<close> is 0
  if \<open>subtotal > 50\<close> and 10 otherwise, and \<open>tax\<close> is \<open>subtotal\<close> times the binary64
  value nearest to 0.1.
\<close>

theorem persisted_total:
  "(req_items req = Some its \<and> its \<noteq> []
      \<and> validate (new_razorpay_order u fr its (req_shippingAddress req)) \<longrightarrow>
    (\<exists>ord. fst (snd (create_order validate orders_create e (Some u) fr req d)) (new_id fr)
             = Some ord
          \<and> items ord = its \<and> totalAmount ord = total_of (items ord)))
   \<and> (upi_items ureq = Some its \<and> its \<noteq> [] \<and> truthy (req_upiVPA ureq)
      \<and> validate (new_upi_order u fr its (upi_shippingAddress ureq) (req_upiVPA ureq)) \<longrightarrow>
    (\<exists>ord. fst (snd (create_upi_payment validate orders_create number_text e (Some u) fr
                       ureq d)) (new_id fr) = Some ord
          \<and> items ord = its \<and> totalAmount ord = total_of (items ord)))
   \<and> total_of its =
       fadd (fadd (subtotal_of its)
               (if fgt (subtotal_of its) (Finite 50) then Finite 0 else Finite 10))
            (fmul (subtotal_of its) (round_double (1 / 10)))
   \<and> subtotal_of its =
       foldl (\<lambda>sum it. fadd sum (fmul (price it) (quantity it))) (Finite 0) its"
proof -
  have A: "\<exists>ord. fst (snd (create_order validate orders_create e (Some u) fr req d)) (new_id fr)
             = Some ord
          \<and> items ord = its \<and> totalAmount ord = total_of (items ord)"
    if "req_items req = Some its" and "its \<noteq> []"
      and "validate (new_razorpay_order u fr its (req_shippingAddress req))"
    using that create_order_persists [where req = req and its = its and validate = validate
        and u = u and fr = fr and orders_create = orders_create and e = e and d = d]
    by auto
  have B: "\<exists>ord. fst (snd (create_upi_payment validate orders_create number_text e (Some u) fr
                       ureq d)) (new_id fr) = Some ord
          \<and> items ord = its \<and> totalAmount ord = total_of (items ord)"
    if "upi_items ureq = Some its" and "its \<noteq> []" and "truthy (req_upiVPA ureq)"
      and "validate (new_upi_order u fr its (upi_shippingAddress ureq) (req_upiVPA ureq))"
    using that create_upi_payment_persists [where req = ureq and its = its
        and validate = validate and u = u and fr = fr and orders_create = orders_create
        and number_text = number_text and e = e and d = d]
    by auto
  have C: "subtotal_of its =
       foldl (\<lambda>sum it. fadd sum (fmul (price it) (quantity it))) (Finite 0) its"
    by (simp add: subtotal_of_def lit_0_def)
  from A B C total_of_formula [of its] show ?thesis by blast
qed

theorem persisted_total_witness:
  "\<exists>ord. fst (snd (create_order order_schema gateway_ok env0 (Some alice) fresh9 (cart 100 1)
                     Map.empty)) ''o9'' = Some ord
         \<and> items ord = [\<lparr>price = Finite 100, quantity = Finite 1\<rparr>]
         \<and> totalAmount ord = Finite 110"
proof -
  have "round_double (1 / 10) = Finite (of_int 7205759403792794 * 2 powi ((- 4) - 52))"
    by (rule round_double_eq) simp_all
  then have c: "round_double (1 / 10) = Finite (3602879701896397 / 36028797018963968)"
    by simp
  have "round_double (100 * 1) = Finite (of_int 7036874417766400 * 2 powi (6 - 52))"
    by (rule round_double_eq) simp_all
  then have m0: "round_double (100 * 1) = Finite 100"
    by simp
  have mul: "fmul (Finite 100) (Finite 1) = Finite 100"
    by (simp only: fmul.simps m0)
  have "round_double (0 + 100) = Finite (of_int 7036874417766400 * 2 powi (6 - 52))"
    by (rule round_double_eq) simp_all
  then have s0: "round_double (0 + 100) = Finite 100"
    by simp
  have sub: "fadd (Finite 0) (Finite 100) = Finite 100"
    by (simp only: fadd.simps s0)
  have gt: "fgt (Finite 100) (Finite 50) = True"
    by simp
  have "round_double (100 * (3602879701896397 / 36028797018963968))
      = Finite (of_int 5629499534213120 * 2 powi (3 - 52))"
    by (rule round_double_eq) simp_all
  then have t0: "round_double (100 * (3602879701896397 / 36028797018963968)) = Finite 10"
    by simp
  have tax: "fmul (Finite 100) (round_double (1 / 10)) = Finite 10"
    by (simp only: c fmul.simps t0)
  have "round_double (100 + 0) = Finite (of_int 7036874417766400 * 2 powi (6 - 52))"
    by (rule round_double_eq) simp_all
  then have a0: "round_double (100 + 0) = Finite 100"
    by simp
  have add1: "fadd (Finite 100) (Finite 0) = Finite 100"
    by (simp only: fadd.simps a0)
  have "round_double (100 + 10) = Finite (of_int 7740561859543040 * 2 powi (6 - 52))"
    by (rule round_double_eq) simp_all
  then have T0: "round_double (100 + 10) = Finite 110"
    by simp
  have add2: "fadd (Finite 100) (Finite 10) = Finite 110"
    by (simp only: fadd.simps T0)
  have total: "total_of [\<lparr>price = Finite 100, quantity = Finite 1\<rparr>] = Finite 110"
    by (simp only: total_of_single Let_def mul sub gt if_True if_False tax add1 add2)
  have pre: "req_items (cart 100 1) = Some [\<lparr>price = Finite 100, quantity = Finite 1\<rparr>]"
    "[\<lparr>price = Finite 100, quantity = Finite 1\<rparr>] \<noteq> []"
    "order_schema (new_razorpay_order alice fresh9
        [\<lparr>price = Finite 100, quantity = Finite 1\<rparr>] (req_shippingAddress (cart 100 1)))"
    "new_id fresh9 = ''o9''"
    by (simp_all add: cart_def order_schema_cart fresh9_def)
  from persisted_total [where req = "cart 100 1" and u = alice and fr = fresh9
      and its = "[\<lparr>price = Finite 100, quantity = Finite 1\<rparr>]"
      and validate = order_schema and orders_create = gateway_ok and e = env0
      and d = Map.empty] pre
  have "\<exists>ord. fst (snd (create_order order_schema gateway_ok env0 (Some alice) fresh9
                     (cart 100 1) Map.empty)) ''o9'' = Some ord
         \<and> items ord = [\<lparr>price = Finite 100, quantity = Finite 1\<rparr>]
         \<and> totalAmount ord = total_of (items ord)"
    by simp
  with total show ?thesis by auto
qed

text \<open>
  The claim as stated fails: the total is not free of rounding drift. For one item of
  price 19.99 (the binary64 value nearest to it) and quantity 1 the persisted total is
  31.988999999999997, which is neither the exact 19.99 + 10 + 1.999 = 31.989 nor the
  binary64 value nearest to it.
\<close>

theorem total_drift_counterexample:
  "map_option totalAmount
     (fst (snd (create_order order_schema gateway_ok env0 (Some alice) fresh9
                  (cart (5626684784446013 / 281474976710656) 1) Map.empty)) ''o9'')
     = Some (Finite (4502051514998587 / 140737488355328))
   \<and> round_double (1999 / 100) = Finite (5626684784446013 / 281474976710656)
   \<and> round_double (1999 / 100 + 10 + 1999 / 100 * (1 / 10))
       = Finite (9004103029997175 / 281474976710656)
   \<and> (4502051514998587 / 140737488355328 :: rat) \<noteq> 9004103029997175 / 281474976710656"
proof -
  have "round_double (1 / 10) = Finite (of_int 7205759403792794 * 2 powi ((- 4) - 52))"
    by (rule round_double_eq) simp_all
  then have c: "round_double (1 / 10) = Finite (3602879701896397 / 36028797018963968)"
    by simp
  have "round_double ((5626684784446013 / 281474976710656) * 1)
      = Finite (of_int 5626684784446013 * 2 powi (4 - 52))"
    by (rule round_double_eq) simp_all
  then have m0: "round_double ((5626684784446013 / 281474976710656) * 1)
      = Finite (5626684784446013 / 281474976710656)"
    by simp
  have mul: "fmul (Finite (5626684784446013 / 281474976710656)) (Finite 1)
      = Finite (5626684784446013 / 281474976710656)"
    by (simp only: fmul.simps m0)
  have "round_double (0 + (5626684784446013 / 281474976710656))
      = Finite (of_int 5626684784446013 * 2 powi (4 - 52))"
    by (rule round_double_eq) simp_all
  then have s0: "round_double (0 + (5626684784446013 / 281474976710656))
      = Finite (5626684784446013 / 281474976710656)"
    by simp
  have sub: "fadd (Finite 0) (Finite (5626684784446013 / 281474976710656))
      = Finite (5626684784446013 / 281474976710656)"
    by (simp only: fadd.simps s0)
  have gt: "fgt (Finite (5626684784446013 / 281474976710656)) (Finite 50) = False"
    by simp
  have "round_double ((5626684784446013 / 281474976710656) * (3602879701896397 /
        36028797018963968))
      = Finite (of_int 9002695655113621 * 2 powi (0 - 52))"
    by (rule round_double_eq) simp_all
  then have t0: "round_double ((5626684784446013 / 281474976710656) * (3602879701896397 /
        36028797018963968))
      = Finite (9002695655113621 / 4503599627370496)"
    by simp
  have tax: "fmul (Finite (5626684784446013 / 281474976710656)) (round_double (1 / 10))
      = Finite (9002695655113621 / 4503599627370496)"
    by (simp only: c fmul.simps t0)
  have "round_double ((5626684784446013 / 281474976710656) + 10)
      = Finite (of_int 8441434551552573 * 2 powi (4 - 52))"
    by (rule round_double_eq) simp_all
  then have a0: "round_double ((5626684784446013 / 281474976710656) + 10)
      = Finite (8441434551552573 / 281474976710656)"
    by simp
  have add1: "fadd (Finite (5626684784446013 / 281474976710656)) (Finite 10)
      = Finite (8441434551552573 / 281474976710656)"
    by (simp only: fadd.simps a0)
  have "round_double ((8441434551552573 / 281474976710656) + (9002695655113621 /
        4503599627370496))
      = Finite (of_int 9004103029997174 * 2 powi (4 - 52))"
    by (rule round_double_eq) simp_all
  then have T0: "round_double ((8441434551552573 / 281474976710656) + (9002695655113621 /
        4503599627370496))
      = Finite (4502051514998587 / 140737488355328)"
    by simp
  have add2: "fadd (Finite (8441434551552573 / 281474976710656)) (Finite (9002695655113621 /
        4503599627370496))
      = Finite (4502051514998587 / 140737488355328)"
    by (simp only: fadd.simps T0)
  have total: "total_of [\<lparr>price = Finite (5626684784446013 / 281474976710656), quantity
      = Finite 1\<rparr>] = Finite (4502051514998587 / 140737488355328)"
    by (simp only: total_of_single Let_def mul sub gt if_True if_False tax add1 add2)
  have stored: "map_option totalAmount
     (fst (snd (create_order order_schema gateway_ok env0 (Some alice) fresh9
                  (cart (5626684784446013 / 281474976710656) 1) Map.empty)) ''o9'')
     = Some (Finite (4502051514998587 / 140737488355328))"
    by (simp add: create_order_def cart_def order_schema_def home_def gateway_ok_def
        fresh9_def new_razorpay_order_def total Let_def del: fmul.simps fadd.simps)
  have "round_double (1999 / 100) = Finite (of_int 5626684784446013 * 2 powi (4 - 52))"
    by (rule round_double_eq) simp_all
  then have p: "round_double (1999 / 100) = Finite (5626684784446013 / 281474976710656)"
    by simp
  have "round_double (1999 / 100 + 10 + 1999 / 100 * (1 / 10))
          = Finite (of_int 9004103029997175 * 2 powi (4 - 52))"
    by (rule round_double_eq) simp_all
  then have x: "round_double (1999 / 100 + 10 + 1999 / 100 * (1 / 10))
       = Finite (9004103029997175 / 281474976710656)"
    by simp
  have ne: "(4502051514998587 / 140737488355328 :: rat) \<noteq> 9004103029997175 / 281474976710656"
    by simp
  from stored p x ne show ?thesis by blast
qed

section \<open>Validation of a new order\<close>




end
